theory Spec2Isabelle
  imports Complex_Main
begin

section \<open>Python and numpy values\<close>

text \<open>
  The engine of \<^verbatim>\<open>fdtd.py\<close> computes with Python floats and with one-dimensional
  numpy arrays of float64.  A float is modelled by the real number it denotes and
  arithmetic on finite numbers is exact: rounding and overflow are not modelled.
  What numpy does where Python would raise is modelled: dividing an array element
  by zero, or raising a negative element to the power one half, gives inf or nan
  (with a warning) and the computation goes on.  Both are written \<open>NonFinite\<close>;
  every sum, difference and product with a non-finite operand is non-finite
  again, which is all the engine ever does with such a number.
\<close>

datatype error =
    AreaSizeError | SpaceStepError | ScValueError | TimeDurationError | TimeStepError
  | BoundaryTypeError | TypeError | IndexError | ZeroDivisionError | ValueError
  | AttributeError

datatype npfloat = Fin real | NonFinite

fun np_add :: "npfloat \<Rightarrow> npfloat \<Rightarrow> npfloat" where
  "np_add (Fin a) (Fin b) = Fin (a + b)"
| "np_add _ _ = NonFinite"

fun np_sub :: "npfloat \<Rightarrow> npfloat \<Rightarrow> npfloat" where
  "np_sub (Fin a) (Fin b) = Fin (a - b)"
| "np_sub _ _ = NonFinite"

fun np_mul :: "npfloat \<Rightarrow> npfloat \<Rightarrow> npfloat" where
  "np_mul (Fin a) (Fin b) = Fin (a * b)"
| "np_mul _ _ = NonFinite"

text \<open>
  Division of float64 numbers: a zero divisor gives inf or nan.  The only non-finite
  divisor of the engine is the nan that \<open>np_pow_half\<close> returns, and a quotient by nan
  is nan.
\<close>

fun np_div :: "npfloat \<Rightarrow> npfloat \<Rightarrow> npfloat" where
  "np_div (Fin a) (Fin b) = (if b = 0 then NonFinite else Fin (a / b))"
| "np_div _ _ = NonFinite"

text \<open>\<^verbatim>\<open>x ** .5\<close> on a float64: nan below zero, the square root otherwise.\<close>

fun np_pow_half :: "npfloat \<Rightarrow> npfloat" where
  "np_pow_half (Fin a) = (if a < 0 then NonFinite else Fin (sqrt a))"
| "np_pow_half NonFinite = NonFinite"

text \<open>
  An elementwise operation on two one-dimensional arrays: equal shapes, or one of
  them of length one (broadcast); any other pair of shapes raises ValueError.
\<close>

definition np_binop :: "('a \<Rightarrow> 'b \<Rightarrow> 'c) \<Rightarrow> 'a list \<Rightarrow> 'b list \<Rightarrow> error + 'c list" where
  "np_binop f xs ys =
     (if length xs = length ys then Inr (map2 f xs ys)
      else if length xs = 1 then Inr (map (f (hd xs)) ys)
      else if length ys = 1 then Inr (map (\<lambda>x. f x (hd ys)) xs)
      else Inl ValueError)"

text \<open>\<^verbatim>\<open>np.zeros(n)\<close> and \<^verbatim>\<open>np.ones(n)\<close>: a negative dimension raises ValueError.\<close>

definition np_full :: "int \<Rightarrow> 'a \<Rightarrow> error + 'a list" where
  "np_full n v = (if n < 0 then Inl ValueError else Inr (replicate (nat n) v))"

text \<open>
  Slices.  A bound \<open>i\<close> of a slice of a sequence of length \<open>n\<close> counts from the end
  when negative and is clipped to \<open>0..n\<close>; an empty range selects nothing.
\<close>

definition slice_bound :: "nat \<Rightarrow> int \<Rightarrow> nat" where
  "slice_bound n i = (if i < 0 then nat (max (i + int n) 0) else min (nat i) n)"

definition py_slice :: "int option \<Rightarrow> int option \<Rightarrow> 'a list \<Rightarrow> 'a list" where
  "py_slice lo hi xs =
     (let n = length xs;
          a = (case lo of None \<Rightarrow> 0 | Some i \<Rightarrow> slice_bound n i);
          b = (case hi of None \<Rightarrow> n | Some i \<Rightarrow> slice_bound n i)
      in take (b - a) (drop a xs))"

text \<open>\<^verbatim>\<open>xs[lo:hi] = v\<close> for a scalar \<open>v\<close>: the selected elements become \<open>v\<close>.\<close>

definition slice_fill :: "int \<Rightarrow> int \<Rightarrow> 'a \<Rightarrow> 'a list \<Rightarrow> 'a list" where
  "slice_fill lo hi v xs =
     (let n = length xs; a = slice_bound n lo; b = slice_bound n hi
      in take a xs @ replicate (b - a) v @ drop (a + (b - a)) xs)"

text \<open>
  \<^verbatim>\<open>xs[lo:hi] = ys\<close> for an array \<open>ys\<close>: its shape is that of the slice, or it has
  length one and is broadcast; otherwise ValueError.
\<close>

definition slice_assign :: "int \<Rightarrow> int \<Rightarrow> 'a list \<Rightarrow> 'a list \<Rightarrow> error + 'a list" where
  "slice_assign lo hi ys xs =
     (let n = length xs; a = slice_bound n lo; b = slice_bound n hi; m = b - a
      in if length ys = m then Inr (take a xs @ ys @ drop (a + m) xs)
         else if length ys = 1 then Inr (take a xs @ replicate m (hd ys) @ drop (a + m) xs)
         else Inl ValueError)"

text \<open>Indexing with an integer: a negative index counts from the end.\<close>

definition py_index :: "'a list \<Rightarrow> int \<Rightarrow> error + nat" where
  "py_index xs i =
     (let n = int (length xs); j = (if i < 0 then i + n else i)
      in if 0 \<le> j \<and> j < n then Inr (nat j) else Inl IndexError)"

definition py_get :: "'a list \<Rightarrow> int \<Rightarrow> error + 'a" where
  "py_get xs i = (case py_index xs i of Inl e \<Rightarrow> Inl e | Inr j \<Rightarrow> Inr (xs ! j))"

definition py_set :: "'a list \<Rightarrow> int \<Rightarrow> 'a \<Rightarrow> error + 'a list" where
  "py_set xs i v = (case py_index xs i of Inl e \<Rightarrow> Inl e | Inr j \<Rightarrow> Inr (xs[j := v]))"

text \<open>\<^verbatim>\<open>xs.pop(i)\<close> of a list, for an index that is not negative.\<close>

definition py_pop :: "nat \<Rightarrow> 'a list \<Rightarrow> error + 'a list" where
  "py_pop i xs = (if i < length xs then Inr (take i xs @ drop (Suc i) xs) else Inl IndexError)"

text \<open>
  \<^verbatim>\<open>int(a // b)\<close> and \<^verbatim>\<open>int(a / b)\<close> on Python floats: both raise on a zero divisor;
  floor division rounds down, \<^verbatim>\<open>int\<close> of a quotient rounds towards zero.
\<close>

definition int_floordiv :: "real \<Rightarrow> real \<Rightarrow> error + int" where
  "int_floordiv a b = (if b = 0 then Inl ZeroDivisionError else Inr \<lfloor>a / b\<rfloor>)"

definition py_truediv :: "real \<Rightarrow> real \<Rightarrow> error + real" where
  "py_truediv a b = (if b = 0 then Inl ZeroDivisionError else Inr (a / b))"

definition py_int :: "real \<Rightarrow> int" where
  "py_int x = (if x < 0 then \<lceil>x\<rceil> else \<lfloor>x\<rfloor>)"

text \<open>\<^verbatim>\<open>str(n)\<close> of a natural number: its decimal digits.\<close>

definition digit_char :: "nat \<Rightarrow> char" where
  "digit_char d = ''0123456789'' ! d"

fun str_nat :: "nat \<Rightarrow> string" where
  "str_nat n = (if n < 10 then [digit_char n] else str_nat (n div 10) @ [digit_char (n mod 10)])"

text \<open>Sequencing of computations that may raise.\<close>

definition ebind :: "error + 'a \<Rightarrow> ('a \<Rightarrow> error + 'b) \<Rightarrow> error + 'b" where
  "ebind m f = (case m of Inl e \<Rightarrow> Inl e | Inr x \<Rightarrow> f x)"

text \<open>
  A statement acts on a state and may raise; the state it leaves is returned in
  both cases, since what was assigned before an exception stays assigned.
\<close>

type_synonym 's stmt = "'s \<Rightarrow> error option \<times> 's"

definition attempt :: "('s \<Rightarrow> error + 's) \<Rightarrow> 's stmt" where
  "attempt f s = (case f s of Inl e \<Rightarrow> (Some e, s) | Inr s' \<Rightarrow> (None, s'))"

definition seq :: "'s stmt \<Rightarrow> 's stmt \<Rightarrow> 's stmt" where
  "seq f g s = (case f s of (Some e, s') \<Rightarrow> (Some e, s') | (None, s') \<Rightarrow> g s')"

fun for_each :: "('a \<Rightarrow> 's stmt) \<Rightarrow> 'a list \<Rightarrow> 's stmt" where
  "for_each f [] s = (None, s)"
| "for_each f (x # xs) s = (case f x s of (Some e, s') \<Rightarrow> (Some e, s') | (None, s') \<Rightarrow> for_each f xs s')"

text \<open>The value a method returns, or the exception it raises.\<close>

definition returning :: "'a \<Rightarrow> error option \<times> 's \<Rightarrow> (error + 'a) \<times> 's" where
  "returning v r = (case r of (Some e, s) \<Rightarrow> (Inl e, s) | (None, s) \<Rightarrow> (Inr v, s))"

section \<open>Constants\<close>

text \<open>
  Modelled from the spec: \<^verbatim>\<open>constants.py\<close> is not among the sources.  The spec
  names \<open>c\<close> the speed of light and \<open>W_0\<close> the wave impedance of the vacuum, and
  their SI numbers are taken here.  The general theorems use only that both are
  positive; the example engines also use the number of \<open>c\<close>.
\<close>

definition c :: real where
  "c = 299792458"

definition W_0 :: real where
  "W_0 = 120 * pi"

section \<open>The objects the engine owns\<close>

text \<open>
  A number held by a Python attribute: the position of a source is a physical
  coordinate before registration and a grid index, a Python int, after it.
\<close>

datatype number = PyInt int | PyFloat real

fun as_real :: "number \<Rightarrow> real" where
  "as_real (PyInt i) = of_int i"
| "as_real (PyFloat x) = x"

text \<open>What a caller can pass to \<^verbatim>\<open>add_probes\<close>.\<close>

datatype pyval = Num number | Str string | Seq "pyval list" | NoneVal

record layer =
  layer_name :: string
  layer_area :: "real \<times> real"
  layer_eps :: real
  layer_mu :: real
  layer_sigma :: real

text \<open>
  Modelled from the spec: \<^verbatim>\<open>source.py\<close> is not among the sources.  A source has a
  position, the material values, Courant number and time step cached at
  registration, and an excitation: a pure function of a spatial offset and a time
  index, which may read the cached values.
\<close>

record source =
  source_position :: number
  source_eps :: real
  source_mu :: real
  source_Sc :: real
  source_dt :: real
  source_wave :: "real \<times> real \<times> real \<times> real \<Rightarrow> real \<Rightarrow> real \<Rightarrow> real"

definition source_E :: "source \<Rightarrow> real \<Rightarrow> real \<Rightarrow> npfloat" where
  "source_E src x t =
     Fin (source_wave src (source_eps src, source_mu src, source_Sc src, source_dt src) x t)"

text \<open>
  Modelled from the spec: \<^verbatim>\<open>probe.py\<close> is not among the sources.  A probe has a
  grid index and a series of samples, a pair of an E and an H value each,
  allocated at its full length \<open>time_counts\<close> when the probe is made; every step
  writes the sample at the probe's index into the next free place.
\<close>

record probe =
  probe_position :: int
  probe_series :: "(npfloat \<times> npfloat) list"
  probe_count :: nat

definition Probe :: "int \<Rightarrow> int \<Rightarrow> error + probe" where
  "Probe position max_time =
     ebind (np_full max_time (Fin 0, Fin 0))
       (\<lambda>zs. Inr \<lparr>probe_position = position, probe_series = zs, probe_count = 0\<rparr>)"

definition add_data :: "npfloat list \<Rightarrow> npfloat list \<Rightarrow> probe \<Rightarrow> error + probe" where
  "add_data e h p =
     ebind (py_get e (probe_position p)) (\<lambda>ev.
     ebind (py_get h (probe_position p)) (\<lambda>hv.
     ebind (py_set (probe_series p) (int (probe_count p)) (ev, hv)) (\<lambda>zs.
       Inr (p\<lparr>probe_series := zs, probe_count := Suc (probe_count p)\<rparr>))))"

text \<open>
  Modelled from the spec: \<^verbatim>\<open>boundary.py\<close> is not among the sources.  An edge
  condition is fixed-value (\<open>PECLeft\<close>, \<open>PECRight\<close>: its edge element of E becomes
  zero, no state) or absorbing: it keeps the material and Courant number given to
  it, a coefficient derived from them and a history of field values, and computes
  the new edge value from the history and the coefficient.  The spec gives no
  formula for either computation, so an absorbing boundary carries them as
  functions.  \<open>Foreign\<close> is an object that is no boundary at all.
\<close>

record abc =
  abc_eps :: real
  abc_mu :: real
  abc_Sc :: real
  abc_coefficient :: npfloat
  abc_history :: "npfloat list"
  abc_derive :: "real \<Rightarrow> real \<Rightarrow> real \<Rightarrow> npfloat"
  abc_edge :: "npfloat \<Rightarrow> npfloat list \<Rightarrow> npfloat list \<Rightarrow> npfloat list \<Rightarrow> npfloat \<times> npfloat list"

datatype boundary = PECLeft | PECRight | ABCLeft abc | ABCRight abc | Foreign

record boundaries =
  left :: boundary
  right :: boundary

definition update_coefficient :: "abc \<Rightarrow> abc" where
  "update_coefficient b = b\<lparr>abc_coefficient := abc_derive b (abc_eps b) (abc_mu b) (abc_Sc b)\<rparr>"

text \<open>
  \<^verbatim>\<open>boundary.update_field(E, H)\<close>: the new E, and the boundary with its history.
  An object without the method raises AttributeError.
\<close>

definition absorb :: "abc \<Rightarrow> npfloat list \<Rightarrow> npfloat list \<Rightarrow> npfloat \<times> abc" where
  "absorb b e h =
     (case abc_edge b (abc_coefficient b) (abc_history b) e h of
        (v, hist) \<Rightarrow> (v, b\<lparr>abc_history := hist\<rparr>))"

fun update_field :: "boundary \<Rightarrow> npfloat list \<Rightarrow> npfloat list \<Rightarrow> error + npfloat list \<times> boundary" where
  "update_field PECLeft e h = ebind (py_set e 0 (Fin 0)) (\<lambda>e'. Inr (e', PECLeft))"
| "update_field PECRight e h = ebind (py_set e (- 1) (Fin 0)) (\<lambda>e'. Inr (e', PECRight))"
| "update_field (ABCLeft b) e h =
     (case absorb b e h of (v, b') \<Rightarrow> ebind (py_set e 0 v) (\<lambda>e'. Inr (e', ABCLeft b')))"
| "update_field (ABCRight b) e h =
     (case absorb b e h of (v, b') \<Rightarrow> ebind (py_set e (- 1) v) (\<lambda>e'. Inr (e', ABCRight b')))"
| "update_field Foreign e h = Inl AttributeError"

section \<open>The engine\<close>

text \<open>
  The state of an \<^verbatim>\<open>FDTD\<close> object.  The material arrays hold what the constructor
  and the layers wrote, finite numbers; the fields and the coefficients are
  computed and may hold non-finite numbers.  The attributes \<open>ceze\<close>, \<open>cezh\<close>,
  \<open>current_time\<close> and \<open>timer\<close> are created by \<^verbatim>\<open>analyze\<close>: before that they
  are absent (\<open>None\<close>) and reading one raises AttributeError.  \<open>timer\<close> tells
  whether the timer that drives \<^verbatim>\<open>next_iteration\<close> is running.  The display and
  the progress bar are collaborators outside the engine and are left out.
\<close>

record fdtd =
  dx :: real
  area_size :: int
  Sc :: real
  time_duration :: real
  dt :: real
  time_counts :: int
  E :: "npfloat list"
  H :: "npfloat list"
  eps :: "real list"
  sigma :: "real list"
  mu :: "real list"
  borders :: "real list"
  boundary :: boundaries
  sources :: "source list"
  probes :: "probe list"
  layers :: "layer list"
  ceze :: "npfloat list option"
  cezh :: "npfloat list option"
  current_time :: "real option"
  timer :: "bool option"

subsection \<open>Construction\<close>

definition validate_area :: "real \<Rightarrow> real \<Rightarrow> error + bool" where
  "validate_area area space_step =
     (if area \<le> 0 then Inl AreaSizeError
      else if space_step > area then Inl SpaceStepError
      else Inr True)"

definition validate_time :: "real \<Rightarrow> real \<Rightarrow> real \<Rightarrow> error + bool" where
  "validate_time space_step duration courant =
     (if duration \<le> 0 then Inl TimeDurationError
      else if space_step * courant / c > duration then Inl TimeStepError
      else Inr True)"

definition validate_Sc :: "real \<Rightarrow> error + unit" where
  "validate_Sc courant = (if courant \<le> 0 then Inl ScValueError else Inr ())"

definition validate_init_data :: "real \<Rightarrow> real \<Rightarrow> real \<Rightarrow> real \<Rightarrow> error + bool" where
  "validate_init_data area space_step duration courant =
     ebind (validate_area area space_step) (\<lambda>_.
     ebind (validate_Sc courant) (\<lambda>_.
     ebind (validate_time space_step duration courant) (\<lambda>_. Inr True)))"

definition init :: "real \<Rightarrow> real \<Rightarrow> real \<Rightarrow> real \<Rightarrow> error + fdtd" where
  "init area space_step duration courant =
     ebind (validate_init_data area space_step duration courant) (\<lambda>_.
     ebind (int_floordiv area space_step) (\<lambda>n.
     ebind (int_floordiv duration (space_step * courant / c)) (\<lambda>counts.
     ebind (np_full n (Fin 0)) (\<lambda>e.
     ebind (np_full (n - 1) (Fin 0)) (\<lambda>h.
     ebind (np_full n 1) (\<lambda>eps0.
     ebind (np_full n 0) (\<lambda>sigma0.
     ebind (np_full (n - 1) 1) (\<lambda>mu0.
       Inr \<lparr>dx = space_step, area_size = n, Sc = courant, time_duration = duration,
            dt = space_step * courant / c, time_counts = counts,
            E = e, H = h, eps = eps0, sigma = sigma0, mu = mu0, borders = [],
            boundary = \<lparr>left = PECLeft, right = PECRight\<rparr>,
            sources = [], probes = [], layers = [],
            ceze = None, cezh = None, current_time = None, timer = None\<rparr>))))))))"

definition attribute :: "'a option \<Rightarrow> error + 'a" where
  "attribute a = (case a of None \<Rightarrow> Inl AttributeError | Some v \<Rightarrow> Inr v)"

subsection \<open>Boundaries and the start of a run\<close>

definition set_left_boundary :: "boundary \<Rightarrow> fdtd \<Rightarrow> (error + bool) \<times> fdtd" where
  "set_left_boundary b s = (Inr True, s\<lparr>boundary := (boundary s)\<lparr>left := b\<rparr>\<rparr>)"

definition set_right_boundary :: "boundary \<Rightarrow> fdtd \<Rightarrow> (error + bool) \<times> fdtd" where
  "set_right_boundary b s = (Inr True, s\<lparr>boundary := (boundary s)\<lparr>right := b\<rparr>\<rparr>)"

text \<open>
  An absorbing boundary takes the material at its edge (index \<open>0\<close> or \<open>-1\<close>) and the
  Courant number, one assignment after the other, then derives its coefficient.
\<close>

definition refresh_abc :: "fdtd \<Rightarrow> int \<Rightarrow> abc \<Rightarrow> error option \<times> abc" where
  "refresh_abc s i b =
     (case py_get (eps s) i of
        Inl e \<Rightarrow> (Some e, b)
      | Inr ev \<Rightarrow>
          (case py_get (mu s) i of
             Inl e \<Rightarrow> (Some e, b\<lparr>abc_eps := ev\<rparr>)
           | Inr mv \<Rightarrow> (None, update_coefficient (b\<lparr>abc_eps := ev, abc_mu := mv, abc_Sc := Sc s\<rparr>))))"

fun refresh :: "fdtd \<Rightarrow> int \<Rightarrow> boundary \<Rightarrow> error option \<times> boundary" where
  "refresh s i (ABCLeft b) = (case refresh_abc s i b of (r, b') \<Rightarrow> (r, ABCLeft b'))"
| "refresh s i (ABCRight b) = (case refresh_abc s i b of (r, b') \<Rightarrow> (r, ABCRight b'))"
| "refresh s i b = (None, b)"

fun is_boundary :: "boundary \<Rightarrow> bool" where
  "is_boundary Foreign = False"
| "is_boundary _ = True"

definition refresh_left :: "fdtd stmt" where
  "refresh_left s =
     (case refresh s 0 (left (boundary s)) of (r, b) \<Rightarrow> (r, s\<lparr>boundary := (boundary s)\<lparr>left := b\<rparr>\<rparr>))"

definition refresh_right :: "fdtd stmt" where
  "refresh_right s =
     (case refresh s (- 1) (right (boundary s)) of (r, b) \<Rightarrow> (r, s\<lparr>boundary := (boundary s)\<lparr>right := b\<rparr>\<rparr>))"

definition check_boundary_types :: "fdtd stmt" where
  "check_boundary_types s =
     (if \<not> is_boundary (left (boundary s)) \<or> \<not> is_boundary (right (boundary s))
      then (Some BoundaryTypeError, s) else (None, s))"

definition update_boundary :: "fdtd \<Rightarrow> (error + bool) \<times> fdtd" where
  "update_boundary s = returning True (seq refresh_left (seq refresh_right check_boundary_types) s)"

text \<open>
  \<^verbatim>\<open>analyze\<close> up to the start of the timer: the boundaries are refreshed, the
  two coefficient arrays are computed from \<open>sigma\<close> and \<open>eps\<close> as they are now, the
  time is set to zero and the timer is started.  The event loop that follows,
  which calls \<^verbatim>\<open>next_iteration\<close> at every tick of the timer, is the driver
  \<open>steps\<close> below.
\<close>

definition set_ceze :: "fdtd stmt" where
  "set_ceze = attempt (\<lambda>s.
     ebind (np_binop np_div (map (\<lambda>x. Fin (1 - x)) (sigma s)) (map (\<lambda>x. Fin (1 + x)) (sigma s)))
       (\<lambda>a. Inr (s\<lparr>ceze := Some a\<rparr>)))"

definition set_cezh :: "fdtd stmt" where
  "set_cezh = attempt (\<lambda>s.
     ebind (np_binop (*) (eps s) (map (\<lambda>x. 1 + x) (sigma s)))
       (\<lambda>d. Inr (s\<lparr>cezh := Some (map (\<lambda>x. np_div (Fin W_0) (Fin x)) d)\<rparr>)))"

definition start_timer :: "fdtd stmt" where
  "start_timer s = (None, s\<lparr>current_time := Some 0, timer := Some True\<rparr>)"

definition analyze :: "fdtd \<Rightarrow> (error + bool) \<times> fdtd" where
  "analyze s =
     (case update_boundary s of
        (Inl e, s') \<Rightarrow> (Inl e, s')
      | (Inr _, s') \<Rightarrow> returning True (seq set_ceze (seq set_cezh start_timer) s'))"

subsection \<open>One step\<close>

text \<open>The new H array of the first statement of a step.\<close>

definition H_next :: "fdtd \<Rightarrow> error + npfloat list" where
  "H_next s =
     ebind (np_binop np_sub (py_slice (Some 1) None (E s)) (py_slice None (Some (- 1)) (E s))) (\<lambda>d.
     ebind (np_binop np_div (map (\<lambda>x. np_mul x (Fin (Sc s))) d) (map (\<lambda>m. Fin (W_0 * m)) (mu s))) (\<lambda>q.
       np_binop np_add (H s) q))"

definition update_H :: "fdtd stmt" where
  "update_H = attempt (\<lambda>s. ebind (H_next s) (\<lambda>h. Inr (s\<lparr>H := h\<rparr>)))"

text \<open>
  The body of the first loop over the sources.  An index that is a float is
  refused by numpy with IndexError.
\<close>

definition grid_index :: "number \<Rightarrow> error + int" where
  "grid_index n = (case n of PyInt p \<Rightarrow> Inr p | PyFloat _ \<Rightarrow> Inl IndexError)"

definition inject_H :: "source \<Rightarrow> fdtd stmt" where
  "inject_H src = attempt (\<lambda>s.
     ebind (grid_index (source_position src)) (\<lambda>p.
     ebind (py_get (H s) (p - 1)) (\<lambda>h0.
     ebind (py_get (mu s) (p - 1)) (\<lambda>m.
     ebind (attribute (current_time s)) (\<lambda>t.
     ebind (py_truediv t (dt s)) (\<lambda>q.
     ebind (py_set (H s) (p - 1)
              (np_sub h0 (np_mul (np_div (Fin (Sc s)) (Fin (W_0 * m))) (source_E src 0 q)))) (\<lambda>h.
       Inr (s\<lparr>H := h\<rparr>))))))))"

text \<open>The interior of E; the right-hand side is computed first, then assigned to the slice.\<close>

definition E_interior :: "fdtd \<Rightarrow> error + npfloat list" where
  "E_interior s =
     ebind (attribute (ceze s)) (\<lambda>cz.
     ebind (np_binop np_mul (py_slice (Some 1) (Some (- 1)) cz) (py_slice (Some 1) (Some (- 1)) (E s))) (\<lambda>a.
     ebind (np_binop np_sub (py_slice (Some 1) None (H s)) (py_slice None (Some (- 1)) (H s))) (\<lambda>d.
     ebind (attribute (cezh s)) (\<lambda>ch.
     ebind (np_binop np_mul (map (\<lambda>x. np_mul x (Fin (Sc s))) d) (py_slice (Some 1) (Some (- 1)) ch)) (\<lambda>b.
       np_binop np_add a b)))))"

definition update_E :: "fdtd stmt" where
  "update_E = attempt (\<lambda>s.
     ebind (E_interior s) (\<lambda>v.
     ebind (slice_assign 1 (- 1) v (E s)) (\<lambda>e. Inr (s\<lparr>E := e\<rparr>))))"

text \<open>The loop over the two fields of the boundaries, \<open>left\<close> first.\<close>

definition update_left :: "fdtd stmt" where
  "update_left = attempt (\<lambda>s.
     ebind (update_field (left (boundary s)) (E s) (H s))
       (\<lambda>(e, b). Inr (s\<lparr>E := e, boundary := (boundary s)\<lparr>left := b\<rparr>\<rparr>)))"

definition update_right :: "fdtd stmt" where
  "update_right = attempt (\<lambda>s.
     ebind (update_field (right (boundary s)) (E s) (H s))
       (\<lambda>(e, b). Inr (s\<lparr>E := e, boundary := (boundary s)\<lparr>right := b\<rparr>\<rparr>)))"

text \<open>The body of the second loop over the sources.\<close>

definition inject_E :: "source \<Rightarrow> fdtd stmt" where
  "inject_E src = attempt (\<lambda>s.
     ebind (grid_index (source_position src)) (\<lambda>p.
     ebind (py_get (E s) p) (\<lambda>e0.
     ebind (py_get (eps s) p) (\<lambda>ev.
     ebind (py_get (mu s) p) (\<lambda>mv.
     ebind (attribute (current_time s)) (\<lambda>t.
     ebind (py_truediv t (dt s)) (\<lambda>q.
     ebind (py_set (E s) p
              (np_add e0 (np_mul (np_div (Fin (Sc s)) (np_pow_half (Fin (ev * mv))))
                                 (source_E src (- 0.5) (q + 0.5))))) (\<lambda>e.
       Inr (s\<lparr>E := e\<rparr>)))))))))"

text \<open>The loop over the probes: each records a sample, in the order of the list.\<close>

fun sample :: "npfloat list \<Rightarrow> npfloat list \<Rightarrow> probe list \<Rightarrow> error option \<times> probe list" where
  "sample e h [] = (None, [])"
| "sample e h (p # ps) =
     (case add_data e h p of
        Inl er \<Rightarrow> (Some er, p # ps)
      | Inr p' \<Rightarrow> (case sample e h ps of (r, ps') \<Rightarrow> (r, p' # ps')))"

definition record_probes :: "fdtd stmt" where
  "record_probes s = (case sample (E s) (H s) (probes s) of (r, ps) \<Rightarrow> (r, s\<lparr>probes := ps\<rparr>))"

text \<open>
  The end of a step: the progress bar is shown the quotient of time and time
  step, the display is drawn, and the time advances.
\<close>

definition advance_time :: "fdtd stmt" where
  "advance_time = attempt (\<lambda>s.
     ebind (attribute (current_time s)) (\<lambda>t.
     ebind (py_truediv t (dt s)) (\<lambda>_.
       Inr (s\<lparr>current_time := Some (t + dt s)\<rparr>))))"

definition iteration :: "fdtd stmt" where
  "iteration =
     seq update_H
    (seq (\<lambda>s. for_each inject_H (sources s) s)
    (seq update_E
    (seq update_left
    (seq update_right
    (seq (\<lambda>s. for_each inject_E (sources s) s)
    (seq record_probes
         advance_time))))))"

definition stop_timer :: "fdtd stmt" where
  "stop_timer = attempt (\<lambda>s. ebind (attribute (timer s)) (\<lambda>_. Inr (s\<lparr>timer := Some False\<rparr>)))"

definition next_iteration :: "fdtd \<Rightarrow> (error + bool) \<times> fdtd" where
  "next_iteration s =
     (case ebind (attribute (current_time s)) (\<lambda>t. int_floordiv t (dt s)) of
        Inl e \<Rightarrow> (Inl e, s)
      | Inr k \<Rightarrow> returning True (if k < time_counts s then iteration s else stop_timer s))"



subsection \<open>Registration of probes, sources and layers\<close>

definition append_probe :: "real \<Rightarrow> fdtd stmt" where
  "append_probe x = attempt (\<lambda>s.
     ebind (int_floordiv x (dx s)) (\<lambda>i.
     ebind (Probe i (time_counts s)) (\<lambda>p.
       Inr (s\<lparr>probes := probes s @ [p]\<rparr>))))"

text \<open>
  An element of a sequence of positions is divided by \<open>dx\<close>: a number works, any
  other object raises TypeError.
\<close>

fun append_probe_of :: "pyval \<Rightarrow> fdtd stmt" where
  "append_probe_of (Num n) = append_probe (as_real n)"
| "append_probe_of _ = (\<lambda>s. (Some TypeError, s))"

text \<open>
  The \<^verbatim>\<open>match\<close> of \<^verbatim>\<open>add_probes\<close>: \<^verbatim>\<open>case float()\<close> takes a float and nothing
  else, \<^verbatim>\<open>case [*args]\<close> takes a sequence that is not a string, \<^verbatim>\<open>case _\<close> raises.
\<close>

fun add_probes :: "pyval \<Rightarrow> fdtd \<Rightarrow> (error + bool) \<times> fdtd" where
  "add_probes (Num (PyFloat x)) s = returning True (append_probe x s)"
| "add_probes (Seq args) s = returning True (for_each append_probe_of args s)"
| "add_probes _ s = (Inl TypeError, s)"

text \<open>The source as \<^verbatim>\<open>add_source\<close> leaves it before appending it.\<close>

definition register :: "source \<Rightarrow> fdtd \<Rightarrow> error + source" where
  "register src s =
     ebind (int_floordiv (as_real (source_position src)) (dx s)) (\<lambda>i.
     ebind (py_get (eps s) i) (\<lambda>ev.
     ebind (py_get (mu s) i) (\<lambda>mv.
       Inr (src\<lparr>source_position := PyInt i, source_eps := ev, source_mu := mv,
                source_Sc := Sc s, source_dt := dt s\<rparr>))))"

definition add_source :: "source \<Rightarrow> fdtd \<Rightarrow> (error + bool) \<times> fdtd" where
  "add_source src s =
     returning True (attempt (\<lambda>s. ebind (register src s) (\<lambda>r. Inr (s\<lparr>sources := sources s @ [r]\<rparr>))) s)"

definition layer_range :: "layer \<Rightarrow> fdtd \<Rightarrow> error + int \<times> int" where
  "layer_range l s =
     ebind (py_truediv (fst (layer_area l)) (dx s)) (\<lambda>b.
     ebind (py_truediv (snd (layer_area l)) (dx s)) (\<lambda>e.
       Inr (py_int b, py_int e)))"

definition name_layer :: "layer \<Rightarrow> fdtd \<Rightarrow> layer" where
  "name_layer l s = l\<lparr>layer_name := ''Layer'' @ str_nat (length (layers s))\<rparr>"

definition append_layer :: "layer \<Rightarrow> fdtd stmt" where
  "append_layer l s = (None, s\<lparr>layers := layers s @ [name_layer l s]\<rparr>)"

definition overlay :: "layer \<Rightarrow> fdtd stmt" where
  "overlay l = attempt (\<lambda>s.
     ebind (layer_range l s) (\<lambda>(b, e).
       Inr (s\<lparr>eps := slice_fill b e (layer_eps l) (eps s),
              mu := slice_fill b e (layer_mu l) (mu s),
              sigma := slice_fill b e (layer_sigma l) (sigma s),
              borders := borders s @ [fst (layer_area l), snd (layer_area l)]\<rparr>)))"

definition add_layer :: "layer \<Rightarrow> fdtd \<Rightarrow> (error + bool) \<times> fdtd" where
  "add_layer l s = returning True (seq (append_layer l) (overlay l) s)"

text \<open>The first layer of the list with the given name, and its index.\<close>

fun find_layer :: "string \<Rightarrow> nat \<Rightarrow> layer list \<Rightarrow> (nat \<times> layer) option" where
  "find_layer nm i [] = None"
| "find_layer nm i (l # ls) = (if layer_name l = nm then Some (i, l) else find_layer nm (Suc i) ls)"

definition reset_range :: "layer \<Rightarrow> fdtd stmt" where
  "reset_range l = attempt (\<lambda>s.
     ebind (layer_range l s) (\<lambda>(b, e).
       Inr (s\<lparr>eps := slice_fill b e 1 (eps s),
              mu := slice_fill b e 1 (mu s),
              sigma := slice_fill b e 0 (sigma s)\<rparr>)))"

definition pop_border :: "nat \<Rightarrow> fdtd stmt" where
  "pop_border i = attempt (\<lambda>s. ebind (py_pop i (borders s)) (\<lambda>bs. Inr (s\<lparr>borders := bs\<rparr>)))"

definition pop_layer :: "nat \<Rightarrow> fdtd stmt" where
  "pop_layer i = attempt (\<lambda>s. ebind (py_pop i (layers s)) (\<lambda>ls. Inr (s\<lparr>layers := ls\<rparr>)))"

definition delete_layer :: "string \<Rightarrow> fdtd \<Rightarrow> (error + bool) \<times> fdtd" where
  "delete_layer nm s =
     (case find_layer nm 0 (layers s) of
        None \<Rightarrow> (Inr True, s)
      | Some (i, l) \<Rightarrow>
          returning True
            (seq (reset_range l) (seq (pop_border (2 * i + 1)) (seq (pop_border (2 * i)) (pop_layer i))) s))"

section \<open>Shapes\<close>

text \<open>\<open>paired\<close>: the space step is not zero and the borders hold two entries for every layer.\<close>

definition paired :: "fdtd \<Rightarrow> bool" where
  "paired s \<longleftrightarrow> dx s \<noteq> 0 \<and> length (borders s) = 2 * length (layers s)"


text \<open>
  The shapes the constructor gives the arrays, which no operation changes: a
  grid of \<open>area_size\<close> nodes, at least one, carries E, \<open>eps\<close>, \<open>sigma\<close> and the two
  coefficient arrays; H and \<open>mu\<close> live on the cells between the nodes.
\<close>

definition shaped_like :: "nat \<Rightarrow> 'a list option \<Rightarrow> bool" where
  "shaped_like n a = (case a of None \<Rightarrow> True | Some xs \<Rightarrow> length xs = n)"

definition well_shaped :: "fdtd \<Rightarrow> bool" where
  "well_shaped s \<longleftrightarrow>
     1 \<le> area_size s \<and>
     length (E s) = nat (area_size s) \<and>
     length (eps s) = nat (area_size s) \<and>
     length (sigma s) = nat (area_size s) \<and>
     length (H s) = nat (area_size s) - 1 \<and>
     length (mu s) = nat (area_size s) - 1 \<and>
     shaped_like (nat (area_size s)) (ceze s) \<and>
     shaped_like (nat (area_size s)) (cezh s)"

section \<open>One step in the words of the specification\<close>


text \<open>(1) H becomes H + (E[1:] - E[:-1]) Sc / (W_0 mu), over the whole array.\<close>

definition spec_update_H :: "fdtd \<Rightarrow> fdtd" where
  "spec_update_H s =
     s\<lparr>H := map (\<lambda>i. np_add (H s ! i)
                        (np_div (np_mul (np_sub (E s ! Suc i) (E s ! i)) (Fin (Sc s)))
                                (Fin (W_0 * mu s ! i))))
                [0..<length (H s)]\<rparr>"





section \<open>Invariants of a step\<close>

text \<open>
  \<open>preserves P f\<close>: the statement \<open>f\<close>, run in a state where \<open>P\<close> holds, leaves a state
  where \<open>P\<close> holds, whether it raises or not.  \<open>stepping t d cz ch\<close> is what the
  statements of a step rely on: the shapes, the time \<open>t\<close>, a time step \<open>d\<close> that is
  not zero, and the two coefficient arrays.
\<close>

definition preserves :: "('s \<Rightarrow> bool) \<Rightarrow> 's stmt \<Rightarrow> bool" where
  "preserves P f \<longleftrightarrow> (\<forall>s r s'. P s \<longrightarrow> f s = (r, s') \<longrightarrow> P s')"





section \<open>Example engines\<close>

text \<open>The engine that a successful construction returns.\<close>

definition fresh :: "real \<Rightarrow> real \<Rightarrow> real \<Rightarrow> real \<Rightarrow> fdtd" where
  "fresh a d td sc =
     \<lparr>dx = d, area_size = \<lfloor>a / d\<rfloor>, Sc = sc, time_duration = td,
      dt = d * sc / c, time_counts = \<lfloor>td / (d * sc / c)\<rfloor>,
      E = replicate (nat \<lfloor>a / d\<rfloor>) (Fin 0), H = replicate (nat (\<lfloor>a / d\<rfloor> - 1)) (Fin 0),
      eps = replicate (nat \<lfloor>a / d\<rfloor>) 1, sigma = replicate (nat \<lfloor>a / d\<rfloor>) 0,
      mu = replicate (nat (\<lfloor>a / d\<rfloor> - 1)) 1, borders = [],
      boundary = \<lparr>left = PECLeft, right = PECRight\<rparr>,
      sources = [], probes = [], layers = [],
      ceze = None, cezh = None, current_time = None, timer = None\<rparr>"

text \<open>The engine that \<open>init 3 1 1 1\<close> constructs: three nodes of vacuum, no objects.\<close>

definition grid3 :: fdtd where
  "grid3 =
     \<lparr>dx = 1, area_size = 3, Sc = 1, time_duration = 1, dt = 1 / c, time_counts = 299792458,
      E = [Fin 0, Fin 0, Fin 0], H = [Fin 0, Fin 0], eps = [1, 1, 1], sigma = [0, 0, 0],
      mu = [1, 1], borders = [], boundary = \<lparr>left = PECLeft, right = PECRight\<rparr>,
      sources = [], probes = [], layers = [],
      ceze = None, cezh = None, current_time = None, timer = None\<rparr>"

definition slab :: "real \<Rightarrow> real \<Rightarrow> real \<Rightarrow> real \<Rightarrow> real \<Rightarrow> layer" where
  "slab a b e m g =
     \<lparr>layer_name = [], layer_area = (a, b), layer_eps = e, layer_mu = m, layer_sigma = g\<rparr>"

definition pulse :: "real \<Rightarrow> source" where
  "pulse x =
     \<lparr>source_position = PyFloat x, source_eps = 0, source_mu = 0, source_Sc = 0, source_dt = 0,
      source_wave = (\<lambda>_ _ _. 1)\<rparr>"

text \<open>
  \<open>layered3\<close> is \<open>grid3\<close> after a layer over the middle node has been added,
  \<open>ready3\<close> is \<open>grid3\<close> after \<^verbatim>\<open>analyze\<close> has started the timer.
\<close>

definition layered3 :: fdtd where
  "layered3 =
     grid3\<lparr>eps := [1, 4, 1], mu := [1, 9], sigma := [0, 0, 0], borders := [1, 2],
           layers := [\<lparr>layer_name = ''Layer0'', layer_area = (1, 2), layer_eps = 4,
                       layer_mu = 9, layer_sigma = 0\<rparr>]\<rparr>"

definition ready3 :: fdtd where
  "ready3 =
     grid3\<lparr>ceze := Some [Fin 1, Fin 1, Fin 1], cezh := Some [Fin W_0, Fin W_0, Fin W_0],
           current_time := Some 0, timer := Some True\<rparr>"

text \<open>
  \<open>driven3\<close> is \<open>grid3\<close> after a source and a probe have been registered at the
  coordinate 1.5 and \<^verbatim>\<open>analyze\<close> has started the timer; \<open>shorted3\<close> is \<open>grid3\<close>
  after a layer with \<open>mu = 0\<close> over the first cell has been added.
\<close>

definition driven3 :: fdtd where
  "driven3 =
     ready3\<lparr>sources := [(pulse (3 / 2))\<lparr>source_position := PyInt 1, source_eps := 1, source_mu := 1,
                           source_Sc := 1, source_dt := 1 / c\<rparr>],
            probes := [\<lparr>probe_position = 1,
                        probe_series = replicate (nat 299792458) (Fin 0, Fin 0), probe_count = 0\<rparr>]\<rparr>"


text \<open>
  The binary64 numbers that the Python literals \<^verbatim>\<open>0.01\<close>, \<^verbatim>\<open>0.2\<close>, \<^verbatim>\<open>0.7\<close> and
  \<^verbatim>\<open>1e-8\<close> denote: each is a numerator of 53 bits over a power of two, and the
  nearest such number to the decimal fraction.
\<close>

definition float_0_01 :: real where
  "float_0_01 = 5764607523034235 / 2 ^ 59"

definition float_0_2 :: real where
  "float_0_2 = 7205759403792794 / 2 ^ 55"

definition float_0_7 :: real where
  "float_0_7 = 6305039478318694 / 2 ^ 53"

definition float_1e_8 :: real where
  "float_1e_8 = 6044629098073146 / 2 ^ 79"

section \<open>Basic facts\<close>

lemma c_pos: "0 < c"
  by (simp add: c_def)

lemma W_0_pos: "0 < W_0"
  by (simp add: W_0_def)

lemma W_0_nonzero [simp]: "W_0 \<noteq> 0"
  using W_0_pos by simp

lemma ebind_simps [simp]: "ebind (Inl e) f = Inl e" "ebind (Inr x) f = f x"
  by (simp_all add: ebind_def)

lemma returning_simps [simp]:
  "returning v (Some e, s) = (Inl e, s)"
  "returning v (None, s) = (Inr v, s)"
  by (simp_all add: returning_def)

lemma attribute_simps [simp]: "attribute None = Inl AttributeError" "attribute (Some v) = Inr v"
  by (simp_all add: attribute_def)

declare str_nat.simps [simp del]



lemma np_binop_same_length: "length xs = length ys \<Longrightarrow> np_binop f xs ys = Inr (map2 f xs ys)"
  by (simp add: np_binop_def)

lemma map2_of_maps: "map2 f (map g xs) (map h xs) = map (\<lambda>x. f (g x) (h x)) xs"
  by (induction xs) simp_all

lemma slice_bound_le: "slice_bound n i \<le> n"
  by (auto simp add: slice_bound_def max_def)

lemma length_slice_fill [simp]: "length (slice_fill lo hi v xs) = length xs"
  using slice_bound_le [of "length xs" lo] slice_bound_le [of "length xs" hi]
  by (simp add: slice_fill_def Let_def)




lemma grid3_sel:
  "dx grid3 = 1" "area_size grid3 = 3" "Sc grid3 = 1" "time_duration grid3 = 1" "dt grid3 = 1 / c"
  "time_counts grid3 = 299792458" "E grid3 = [Fin 0, Fin 0, Fin 0]" "H grid3 = [Fin 0, Fin 0]"
  "eps grid3 = [1, 1, 1]" "sigma grid3 = [0, 0, 0]" "mu grid3 = [1, 1]" "borders grid3 = []"
  "boundary grid3 = \<lparr>left = PECLeft, right = PECRight\<rparr>" "sources grid3 = []" "probes grid3 = []"
  "layers grid3 = []" "ceze grid3 = None" "cezh grid3 = None" "current_time grid3 = None"
  "timer grid3 = None"
  by (simp_all add: grid3_def)

section \<open>Construction and its validation\<close>

lemma validate_init_data_eq:
  "validate_init_data a d td sc =
     (if a \<le> 0 then Inl AreaSizeError
      else if d > a then Inl SpaceStepError
      else if sc \<le> 0 then Inl ScValueError
      else if td \<le> 0 then Inl TimeDurationError
      else if d * sc / c > td then Inl TimeStepError
      else Inr True)"
  by (simp add: validate_init_data_def validate_area_def validate_Sc_def validate_time_def)

lemma floor_ge_one: "0 < d \<Longrightarrow> d \<le> a \<Longrightarrow> 1 \<le> \<lfloor>a / d :: real\<rfloor>"
  by (simp add: le_floor_iff)

text \<open>
  After the validation the constructor divides by the space step and allocates
  the arrays; neither can go wrong when the step is positive.
\<close>

lemma init_after_validation:
  "init a d td sc =
     (case validate_init_data a d td sc of
        Inl e \<Rightarrow> Inl e
      | Inr _ \<Rightarrow>
          if d = 0 then Inl ZeroDivisionError
          else if d < 0 then Inl ValueError
          else Inr (fresh a d td sc))"
proof (cases "validate_init_data a d td sc")
  case (Inl e)
  then show ?thesis
    by (simp add: init_def)
next
  case (Inr b)
  then have ok: "0 < a" "d \<le> a" "0 < sc" "0 < td" "d * sc / c \<le> td"
    by (simp_all add: validate_init_data_eq split: if_splits)
  consider "d = 0" | "d < 0" | "0 < d" by linarith
  then show ?thesis
  proof cases
    case 1
    with Inr show ?thesis
      by (simp add: init_def int_floordiv_def)
  next
    case 2
    with ok have nz: "d * sc / c \<noteq> 0" using c_pos by simp
    from 2 ok have "a / d < 0" by (simp add: divide_neg_pos field_simps)
    then have "\<lfloor>a / d\<rfloor> < 0" by (simp add: floor_less_iff)
    with 2 nz Inr show ?thesis
      by (simp add: init_def int_floordiv_def np_full_def)
  next
    case 3
    with ok have nz: "d * sc / c \<noteq> 0" using c_pos by simp
    from 3 ok have "1 \<le> \<lfloor>a / d\<rfloor>" by (simp add: floor_ge_one)
    moreover from 3 ok have "\<not> a / d < 0" by (simp add: not_less)
    ultimately show ?thesis using 3 nz Inr
      by (simp add: init_def int_floordiv_def np_full_def fresh_def)
  qed
qed

lemma init_grid3: "init 3 1 1 1 = Inr grid3"
proof -
  have "init 3 1 1 1 = Inr (fresh 3 1 1 1)"
    by (simp add: init_after_validation validate_init_data_eq c_def)
  moreover have "fresh 3 1 1 1 = grid3"
    by (simp add: fresh_def grid3_def eval_nat_numeral c_def)
  ultimately show ?thesis by simp
qed



text \<open>
  Claim C6, amended.  A construction that succeeds gives a grid of
  \<open>N = \<lfloor>area_size / space_step\<rfloor>\<close> nodes with \<open>N \<ge> 1\<close>; E, \<open>eps\<close> and \<open>sigma\<close> have length
  \<open>N\<close>, H and \<open>mu\<close> have length \<open>N - 1\<close>, which is zero when \<open>N = 1\<close>.
\<close>

theorem init_shapes:
  assumes "init a d td sc = Inr s"
  shows "area_size s = \<lfloor>a / d\<rfloor> \<and> 1 \<le> area_size s \<and>
         length (E s) = nat (area_size s) \<and> length (eps s) = nat (area_size s) \<and>
         length (sigma s) = nat (area_size s) \<and>
         length (H s) = nat (area_size s - 1) \<and> length (mu s) = nat (area_size s - 1)"
proof -
  from assms have ok: "0 < d" "d \<le> a" and s: "s = fresh a d td sc"
    by (simp_all add: init_after_validation validate_init_data_eq split: if_splits)
  from ok have "1 \<le> \<lfloor>a / d\<rfloor>" by (rule floor_ge_one)
  with s show ?thesis by (simp add: fresh_def)
qed

theorem init_shapes_witness:
  "area_size grid3 = \<lfloor>3 / 1 :: real\<rfloor> \<and> 1 \<le> area_size grid3 \<and>
   length (E grid3) = nat (area_size grid3) \<and> length (eps grid3) = nat (area_size grid3) \<and>
   length (sigma grid3) = nat (area_size grid3) \<and>
   length (H grid3) = nat (area_size grid3 - 1) \<and> length (mu grid3) = nat (area_size grid3 - 1)"
  using init_shapes [OF init_grid3] by simp

text \<open>
  The claim as stated asks for at least two nodes.  A space step equal to the
  area size is accepted and gives one node and an empty H.
\<close>

theorem init_single_node_counterexample:
  "init 1 1 1 1 = Inr (fresh 1 1 1 1) \<and> area_size (fresh 1 1 1 1) = 1 \<and> H (fresh 1 1 1 1) = []"
  by (simp add: init_after_validation validate_init_data_eq fresh_def c_def)

section \<open>Layers, sources and probes\<close>

text \<open>What \<^verbatim>\<open>add_layer\<close> does on an engine whose space step is not zero.\<close>

lemma add_layer_eq:
  assumes "dx s \<noteq> 0"
  shows "add_layer l s =
     (Inr True,
      s\<lparr>layers := layers s @ [name_layer l s],
        eps := slice_fill (py_int (fst (layer_area l) / dx s)) (py_int (snd (layer_area l) / dx s))
                 (layer_eps l) (eps s),
        mu := slice_fill (py_int (fst (layer_area l) / dx s)) (py_int (snd (layer_area l) / dx s))
                 (layer_mu l) (mu s),
        sigma := slice_fill (py_int (fst (layer_area l) / dx s)) (py_int (snd (layer_area l) / dx s))
                 (layer_sigma l) (sigma s),
        borders := borders s @ [fst (layer_area l), snd (layer_area l)]\<rparr>)"
  using assms
  by (simp add: add_layer_def seq_def append_layer_def overlay_def attempt_def
      layer_range_def py_truediv_def)


lemma add_layer_sources: "sources (snd (add_layer l s)) = sources s"
  by (simp add: add_layer_def seq_def append_layer_def overlay_def attempt_def returning_def
      layer_range_def py_truediv_def)

lemma find_layer_None: "\<forall>l\<in>set ls. layer_name l \<noteq> nm \<Longrightarrow> find_layer nm i ls = None"
  by (induction ls arbitrary: i) auto








text \<open>
  Claim C9.  When no registered layer has the given name, \<^verbatim>\<open>delete_layer\<close> returns
  True, raises nothing and leaves the engine as it was: the layers, the borders
  and the three material arrays are unchanged.
\<close>

theorem delete_layer_unknown_name:
  assumes "\<forall>l\<in>set (layers s). layer_name l \<noteq> nm"
  shows "delete_layer nm s = (Inr True, s)"
  using assms by (simp add: delete_layer_def find_layer_None)

theorem delete_layer_unknown_name_witness:
  "delete_layer ''Layer1'' layered3 = (Inr True, layered3)"
  using delete_layer_unknown_name [of layered3 "''Layer1''"] by (simp add: layered3_def)

text \<open>
  Claim C5.  \<^verbatim>\<open>add_source\<close> turns the position of the source into the grid index
  \<open>i\<close> by floor division by \<open>dx\<close>, stores \<open>i\<close> in the source, copies \<open>eps[i]\<close>, \<open>mu[i]\<close>,
  \<open>Sc\<close> and \<open>dt\<close> of the engine into it and appends it; a layer added afterwards
  leaves the registered sources, and so the cached values, as they are.  The
  registration goes through when \<open>dx\<close> is not zero and \<open>i\<close> is an index of both
  \<open>eps\<close> and \<open>mu\<close>.
\<close>

theorem add_source_snapshot:
  assumes "dx s \<noteq> 0" and "i = \<lfloor>as_real (source_position src) / dx s\<rfloor>"
    and "py_get (eps s) i = Inr ev" and "py_get (mu s) i = Inr mv"
  shows "add_source src s =
           (Inr True, s\<lparr>sources := sources s @
              [src\<lparr>source_position := PyInt i, source_eps := ev, source_mu := mv,
                   source_Sc := Sc s, source_dt := dt s\<rparr>]\<rparr>) \<and>
         sources (snd (add_layer l (snd (add_source src s)))) = sources (snd (add_source src s))"
  using assms
  by (simp add: add_source_def register_def int_floordiv_def attempt_def add_layer_sources)

theorem add_source_snapshot_witness:
  "add_source (pulse (3 / 2)) layered3 =
      (Inr True, layered3\<lparr>sources := sources layered3 @
         [(pulse (3 / 2))\<lparr>source_position := PyInt 1, source_eps := 4, source_mu := 9,
                   source_Sc := Sc layered3, source_dt := dt layered3\<rparr>]\<rparr>) \<and>
   sources (snd (add_layer (slab 0 3 2 2 2) (snd (add_source (pulse (3 / 2)) layered3))))
     = sources (snd (add_source (pulse (3 / 2)) layered3))"
proof -
  have h1: "dx layered3 \<noteq> 0"
    by (simp add: layered3_def grid3_sel)
  have "\<lfloor>3 / 2 :: real\<rfloor> = 1"
    by (simp add: floor_eq_iff)
  then have h2: "1 = \<lfloor>as_real (source_position (pulse (3 / 2))) / dx layered3\<rfloor>"
    by (simp add: layered3_def grid3_sel pulse_def)
  have h3: "py_get (eps layered3) 1 = Inr 4"
    by (simp add: layered3_def py_get_def py_index_def)
  have h4: "py_get (mu layered3) 1 = Inr 9"
    by (simp add: layered3_def py_get_def py_index_def)
  show ?thesis
    by (rule add_source_snapshot [OF h1 h2 h3 h4])
qed

text \<open>
  Claim C10.  \<^verbatim>\<open>add_probes\<close> raises TypeError for an argument that is neither a
  float nor a sequence other than a string, a Python int among them, and then
  the engine, its probes included, is unchanged.
\<close>

theorem add_probes_type_error:
  assumes "\<And>x. v \<noteq> Num (PyFloat x)" and "\<And>args. v \<noteq> Seq args"
  shows "add_probes v s = (Inl TypeError, s)"
proof (cases v)
  case (Num n)
  with assms(1) show ?thesis by (cases n) auto
next
  case (Seq args)
  with assms(2) [of args] show ?thesis by simp
qed simp_all

theorem add_probes_type_error_witness:
  "add_probes (Num (PyInt 20)) grid3 = (Inl TypeError, grid3)"
  using add_probes_type_error [of "Num (PyInt 20)" grid3] by simp

text \<open>Probes for a sequence of two floats.\<close>

lemma append_probe_eq:
  assumes "dx s \<noteq> 0" and "0 \<le> time_counts s"
  shows "append_probe x s =
    (None, s\<lparr>probes := probes s @
       [\<lparr>probe_position = \<lfloor>x / dx s\<rfloor>,
         probe_series = replicate (nat (time_counts s)) (Fin 0, Fin 0), probe_count = 0\<rparr>]\<rparr>)"
  using assms by (simp add: append_probe_def attempt_def int_floordiv_def Probe_def np_full_def)

lemma add_probes_pair:
  assumes "dx s \<noteq> 0" and "0 \<le> time_counts s"
  shows "add_probes (Seq [Num (PyFloat x), Num (PyFloat y)]) s =
    (Inr True, s\<lparr>probes := probes s @
       [\<lparr>probe_position = \<lfloor>x / dx s\<rfloor>,
         probe_series = replicate (nat (time_counts s)) (Fin 0, Fin 0), probe_count = 0\<rparr>,
        \<lparr>probe_position = \<lfloor>y / dx s\<rfloor>,
         probe_series = replicate (nat (time_counts s)) (Fin 0, Fin 0), probe_count = 0\<rparr>]\<rparr>)"
  using assms by (simp add: append_probe_eq)

text \<open>Each of the four numbers is within half a unit in the last place of its decimal.\<close>

lemma binary64_literals:
  "\<bar>float_0_01 - 1 / 100\<bar> \<le> 1 / 2 ^ 60" "\<bar>float_0_2 - 2 / 10\<bar> \<le> 1 / 2 ^ 56"
  "\<bar>float_0_7 - 7 / 10\<bar> \<le> 1 / 2 ^ 54" "\<bar>float_1e_8 - 1 / 10 ^ 8\<bar> \<le> 1 / 2 ^ 80"
  by (simp_all add: float_0_01_def float_0_2_def float_0_7_def float_1e_8_def abs_le_iff)

lemma binary64_floors:
  "\<lfloor>1 / float_0_01\<rfloor> = 99" "\<lfloor>float_0_2 / float_0_01\<rfloor> = 20" "\<lfloor>float_0_7 / float_0_01\<rfloor> = 69"
  "\<lfloor>float_1e_8 / (float_0_01 * 1 / c)\<rfloor> = 299"
  by (simp_all add: float_0_01_def float_0_2_def float_0_7_def float_1e_8_def c_def floor_eq_iff)

text \<open>
  Claim C8, on the code.  The floats that the scenario passes are the binary64
  numbers above, and floor division of floats gives the floor of their exact
  quotient.  The float \<^verbatim>\<open>0.01\<close> lies above one hundredth and the float \<^verbatim>\<open>0.7\<close>
  below seven tenths: the engine has 99 nodes, and the two probes are made at the
  indices 20 and 69, each with a series of length \<open>time_counts\<close>.
\<close>

theorem add_probes_binary64_scenario:
  "init 1 float_0_01 float_1e_8 1 = Inr (fresh 1 float_0_01 float_1e_8 1) \<and>
   area_size (fresh 1 float_0_01 float_1e_8 1) = 99 \<and>
   fst (add_probes (Seq [Num (PyFloat float_0_2), Num (PyFloat float_0_7)])
          (fresh 1 float_0_01 float_1e_8 1)) = Inr True \<and>
   map probe_position
     (probes (snd (add_probes (Seq [Num (PyFloat float_0_2), Num (PyFloat float_0_7)])
                     (fresh 1 float_0_01 float_1e_8 1)))) = [20, 69] \<and>
   map (\<lambda>p. int (length (probe_series p)))
     (probes (snd (add_probes (Seq [Num (PyFloat float_0_2), Num (PyFloat float_0_7)])
                     (fresh 1 float_0_01 float_1e_8 1)))) =
     [time_counts (fresh 1 float_0_01 float_1e_8 1), time_counts (fresh 1 float_0_01 float_1e_8 1)]"
proof -
  let ?s = "fresh 1 float_0_01 float_1e_8 1"
  have sel: "dx ?s = float_0_01" "time_counts ?s = 299" "area_size ?s = 99" "probes ?s = []"
    using binary64_floors by (simp_all add: fresh_def)
  have i: "init 1 float_0_01 float_1e_8 1 = Inr ?s"
    by (simp add: init_after_validation validate_init_data_eq)
       (simp add: float_0_01_def float_1e_8_def c_def)
  have "float_0_01 \<noteq> 0" by (simp add: float_0_01_def)
  then have nz: "dx ?s \<noteq> 0" by (simp add: sel)
  have tc: "0 \<le> time_counts ?s" by (simp add: sel)
  show ?thesis
    unfolding add_probes_pair [OF nz tc]
    using i binary64_floors by (simp add: sel)
qed

section \<open>The start and the end of a run\<close>

lemma update_boundary_pec:
  assumes "boundary s = \<lparr>left = PECLeft, right = PECRight\<rparr>"
  shows "update_boundary s = (Inr True, s)"
  using assms
  by (simp add: update_boundary_def seq_def refresh_left_def refresh_right_def
      check_boundary_types_def)

lemma analyze_pec:
  assumes "boundary s = \<lparr>left = PECLeft, right = PECRight\<rparr>" and "length (eps s) = length (sigma s)"
  shows "analyze s =
     (Inr True,
      s\<lparr>ceze := Some (map (\<lambda>g. np_div (Fin (1 - g)) (Fin (1 + g))) (sigma s)),
        cezh := Some (map (\<lambda>x. np_div (Fin W_0) (Fin x))
                         (map2 (*) (eps s) (map (\<lambda>g. 1 + g) (sigma s)))),
        current_time := Some 0, timer := Some True\<rparr>)"
  using assms
  by (simp add: analyze_def update_boundary_pec seq_def set_ceze_def set_cezh_def start_timer_def
      attempt_def np_binop_same_length map2_of_maps)

lemma analyze_grid3: "analyze grid3 = (Inr True, ready3)"
  by (simp add: analyze_pec grid3_sel ready3_def)

text \<open>
  Claim C7.  Once the number of completed steps \<open>\<lfloor>current_time / dt\<rfloor>\<close> has reached
  \<open>time_counts\<close>, \<^verbatim>\<open>next_iteration\<close> returns True, raises nothing and only stops the
  timer: E, H, \<open>eps\<close>, \<open>mu\<close>, \<open>sigma\<close>, the probes and the time are unchanged.
\<close>

theorem next_iteration_after_completion:
  assumes "current_time s = Some t" and "dt s \<noteq> 0" and "time_counts s \<le> \<lfloor>t / dt s\<rfloor>"
    and "timer s = Some b"
  shows "next_iteration s = (Inr True, s\<lparr>timer := Some False\<rparr>)"
  using assms by (simp add: next_iteration_def int_floordiv_def stop_timer_def attempt_def)

theorem next_iteration_after_completion_witness:
  "next_iteration (ready3\<lparr>current_time := Some 1\<rparr>) =
     (Inr True, ready3\<lparr>current_time := Some 1, timer := Some False\<rparr>)"
proof -
  have "time_counts (ready3\<lparr>current_time := Some 1\<rparr>) \<le> \<lfloor>1 / dt (ready3\<lparr>current_time := Some 1\<rparr>)\<rfloor>"
    by (simp add: ready3_def grid3_sel c_def)
  moreover have "dt (ready3\<lparr>current_time := Some 1\<rparr>) \<noteq> 0"
    by (simp add: ready3_def grid3_sel c_def)
  ultimately show ?thesis
    using next_iteration_after_completion [of "ready3\<lparr>current_time := Some 1\<rparr>" 1 True]
    by (simp add: ready3_def)
qed

section \<open>One step is the step of the specification\<close>

lemma slice_bound_minus_one: "slice_bound n (- 1) = n - 1"
  by (auto simp add: slice_bound_def max_def)

lemma slice_bound_one: "slice_bound n 1 = min 1 n"
  by (simp add: slice_bound_def)

lemma py_slice_tail: "py_slice (Some 1) None xs = drop 1 xs"
  by (simp add: py_slice_def slice_bound_one Let_def min_def)

lemma py_slice_front: "py_slice None (Some (- 1)) xs = take (length xs - 1) xs"
  by (simp add: py_slice_def slice_bound_minus_one Let_def)

lemma py_slice_interior: "py_slice (Some 1) (Some (- 1)) xs = take (length xs - 2) (drop 1 xs)"
  by (cases "length xs = 0")
     (simp_all add: py_slice_def slice_bound_minus_one slice_bound_one Let_def min_def numeral_2_eq_2)


text \<open>The new H of a step, element by element.\<close>

lemma H_next_pointwise:
  assumes "length (H s) = length (E s) - 1" and "length (mu s) = length (E s) - 1"
  shows "H_next s = Inr (H (spec_update_H s))"
proof -
  let ?n = "length (E s) - 1"
  let ?d = "map2 np_sub (drop 1 (E s)) (take ?n (E s))"
  let ?q = "map2 np_div (map (\<lambda>x. np_mul x (Fin (Sc s))) ?d) (map (\<lambda>m. Fin (W_0 * m)) (mu s))"
  have d: "np_binop np_sub (py_slice (Some 1) None (E s)) (py_slice None (Some (- 1)) (E s)) = Inr ?d"
    by (simp add: py_slice_tail py_slice_front np_binop_same_length)
  have ld: "length ?d = ?n" by simp
  have q: "np_binop np_div (map (\<lambda>x. np_mul x (Fin (Sc s))) ?d) (map (\<lambda>m. Fin (W_0 * m)) (mu s)) = Inr ?q"
    using assms(2) by (simp add: np_binop_same_length)
  have lq: "length ?q = ?n" using assms(2) by simp
  have h: "np_binop np_add (H s) ?q = Inr (map2 np_add (H s) ?q)"
    using assms(1) lq by (simp add: np_binop_same_length del: length_map length_zip)
  have "map2 np_add (H s) ?q = H (spec_update_H s)"
  proof (rule nth_equalityI)
    show "length (map2 np_add (H s) ?q) = length (H (spec_update_H s))"
      using assms by (simp add: spec_update_H_def)
  next
    fix i assume "i < length (map2 np_add (H s) ?q)"
    then have i: "i < ?n" using assms by simp
    then have "Suc i < length (E s)" by simp
    with i assms show "map2 np_add (H s) ?q ! i = H (spec_update_H s) ! i"
      by (simp add: spec_update_H_def)
  qed
  with d q h show ?thesis
    by (simp add: H_next_def del: length_map length_zip)
qed



lemma preservesI: "(\<And>s r s'. P s \<Longrightarrow> f s = (r, s') \<Longrightarrow> P s') \<Longrightarrow> preserves P f"
  by (auto simp add: preserves_def)

lemma preservesD: "preserves P f \<Longrightarrow> P s \<Longrightarrow> f s = (r, s') \<Longrightarrow> P s'"
  by (auto simp add: preserves_def)

lemma preserves_attempt:
  assumes "\<And>s s'. P s \<Longrightarrow> g s = Inr s' \<Longrightarrow> P s'"
  shows "preserves P (attempt g)"
  using assms by (auto simp add: preserves_def attempt_def split: sum.splits)

lemma preserves_seq:
  assumes "preserves P f" and "preserves P g"
  shows "preserves P (seq f g)"
proof (rule preservesI)
  fix s r s' assume P: "P s" and eq: "seq f g s = (r, s')"
  obtain r1 s1 where f: "f s = (r1, s1)" by (cases "f s")
  with assms(1) P have P1: "P s1" by (rule preservesD)
  show "P s'"
  proof (cases r1)
    case None
    with f eq have "g s1 = (r, s')" by (simp add: seq_def)
    with assms(2) P1 show ?thesis by (rule preservesD)
  next
    case (Some e)
    with f eq have "s' = s1" by (simp add: seq_def)
    with P1 show ?thesis by simp
  qed
qed

lemma preserves_for_each:
  assumes "\<And>x. x \<in> set xs \<Longrightarrow> preserves P (f x)"
  shows "preserves P (for_each f xs)"
  using assms
proof (induction xs)
  case Nil
  show ?case by (simp add: preserves_def)
next
  case (Cons x xs)
  have 1: "preserves P (f x)" using Cons.prems by simp
  have 2: "preserves P (for_each f xs)" using Cons by simp
  have "for_each f (x # xs) = seq (f x) (for_each f xs)"
    by (rule ext) (simp add: seq_def)
  with preserves_seq [OF 1 2] show ?case by simp
qed



text \<open>The statements of a step keep the shapes and the attributes a step reads.\<close>

lemma py_set_length: "py_set xs i v = Inr ys \<Longrightarrow> length ys = length xs"
  by (auto simp add: py_set_def split: sum.splits)












lemma update_field_length: "update_field b e h = Inr (e', b') \<Longrightarrow> length e' = length e"
  by (cases b) (auto simp add: ebind_def split: sum.splits prod.splits dest: py_set_length)










lemma preserves_loop:
  assumes "\<And>x. preserves P (f x)"
  shows "preserves P (\<lambda>s. for_each f (xs s) s)"
proof (rule preservesI)
  fix s r s' assume "P s" and "for_each f (xs s) s = (r, s')"
  with preserves_for_each [of "xs s" P f] assms show "P s'"
    by (auto dest: preservesD)
qed



lemma ready3_sel:
  "dx ready3 = 1" "area_size ready3 = 3" "Sc ready3 = 1" "dt ready3 = 1 / c"
  "time_counts ready3 = 299792458" "E ready3 = [Fin 0, Fin 0, Fin 0]" "H ready3 = [Fin 0, Fin 0]"
  "eps ready3 = [1, 1, 1]" "sigma ready3 = [0, 0, 0]" "mu ready3 = [1, 1]"
  "boundary ready3 = \<lparr>left = PECLeft, right = PECRight\<rparr>" "sources ready3 = []" "probes ready3 = []"
  "ceze ready3 = Some [Fin 1, Fin 1, Fin 1]" "cezh ready3 = Some [Fin W_0, Fin W_0, Fin W_0]"
  "current_time ready3 = Some 0" "timer ready3 = Some True"
  by (simp_all add: ready3_def grid3_sel)




text \<open>The engine \<open>driven3\<close> is made by the operations of the engine.\<close>

lemma driven3_reached:
  "add_source (pulse (3 / 2)) grid3 = (Inr True, grid3\<lparr>sources := sources driven3\<rparr>)"
  "add_probes (Num (PyFloat (3 / 2))) (grid3\<lparr>sources := sources driven3\<rparr>)
     = (Inr True, grid3\<lparr>sources := sources driven3, probes := probes driven3\<rparr>)"
  "analyze (grid3\<lparr>sources := sources driven3, probes := probes driven3\<rparr>) = (Inr True, driven3)"
proof -
  have f: "\<lfloor>3 / 2 :: real\<rfloor> = 1" by (simp add: floor_eq_iff)
  show "add_source (pulse (3 / 2)) grid3 = (Inr True, grid3\<lparr>sources := sources driven3\<rparr>)"
    using f by (simp add: add_source_def register_def attempt_def int_floordiv_def grid3_sel
        pulse_def py_get_def py_index_def driven3_def)
  show "add_probes (Num (PyFloat (3 / 2))) (grid3\<lparr>sources := sources driven3\<rparr>)
     = (Inr True, grid3\<lparr>sources := sources driven3, probes := probes driven3\<rparr>)"
    using f by (simp add: append_probe_eq grid3_sel driven3_def)
  show "analyze (grid3\<lparr>sources := sources driven3, probes := probes driven3\<rparr>) = (Inr True, driven3)"
    by (simp add: analyze_pec grid3_sel driven3_def ready3_def)
qed

lemma driven3_sel:
  "dx driven3 = 1" "area_size driven3 = 3" "Sc driven3 = 1" "dt driven3 = 1 / c"
  "time_counts driven3 = 299792458" "E driven3 = [Fin 0, Fin 0, Fin 0]" "H driven3 = [Fin 0, Fin 0]"
  "eps driven3 = [1, 1, 1]" "sigma driven3 = [0, 0, 0]" "mu driven3 = [1, 1]"
  "boundary driven3 = \<lparr>left = PECLeft, right = PECRight\<rparr>"
  "ceze driven3 = Some [Fin 1, Fin 1, Fin 1]" "cezh driven3 = Some [Fin W_0, Fin W_0, Fin W_0]"
  "current_time driven3 = Some 0" "timer driven3 = Some True"
  by (simp_all add: driven3_def ready3_sel)

lemma seq_then: "f s = (None, u) \<Longrightarrow> g u = r \<Longrightarrow> seq f g s = r"
  by (simp add: seq_def)

text \<open>
  One step of \<open>driven3\<close>, statement by statement: the source lowers \<open>H[0]\<close>, the
  interior node of E takes the difference of H, the source raises it again, the
  probe records the pair at its node and the time advances by \<open>dt\<close>.
\<close>

lemma next_iteration_driven3:
  "next_iteration driven3 =
     (Inr True,
      driven3\<lparr>H := [Fin (- (1 / W_0)), Fin 0], E := [Fin 0, Fin 2, Fin 0],
              probes := [\<lparr>probe_position = 1,
                          probe_series = (replicate (nat 299792458) (Fin 0, Fin 0))[0 := (Fin 2, Fin 0)],
                          probe_count = 1\<rparr>],
              current_time := Some (1 / c)\<rparr>)"
proof -
  let ?src = "(pulse (3 / 2))\<lparr>source_position := PyInt 1, source_eps := 1, source_mu := 1,
                           source_Sc := 1, source_dt := 1 / c\<rparr>"
  let ?s2 = "driven3\<lparr>H := [Fin (- (1 / W_0)), Fin 0]\<rparr>"
  let ?s3 = "?s2\<lparr>E := [Fin 0, Fin 1, Fin 0]\<rparr>"
  let ?s6 = "?s2\<lparr>E := [Fin 0, Fin 2, Fin 0]\<rparr>"
  let ?s7 = "?s6\<lparr>probes := [\<lparr>probe_position = 1,
                          probe_series = (replicate (nat 299792458) (Fin 0, Fin 0))[0 := (Fin 2, Fin 0)],
                          probe_count = 1\<rparr>]\<rparr>"
  have g: "\<lfloor>0 / dt driven3\<rfloor> < time_counts driven3" "dt driven3 \<noteq> 0"
    by (simp_all add: driven3_sel c_def)
  have srcs: "sources driven3 = [?src]" "probes driven3 = [\<lparr>probe_position = 1,
                        probe_series = replicate (nat 299792458) (Fin 0, Fin 0), probe_count = 0\<rparr>]"
    by (simp_all add: driven3_def)
  have p1: "update_H driven3 = (None, driven3)"
    by (simp add: update_H_def attempt_def H_next_def driven3_sel py_slice_tail py_slice_front
        np_binop_same_length)
  have p2: "inject_H ?src driven3 = (None, ?s2)"
    using g(2) by (simp add: inject_H_def attempt_def grid_index_def py_get_def py_set_def py_index_def
        py_truediv_def driven3_sel source_E_def pulse_def)
  have p3: "update_E ?s2 = (None, ?s3)"
    by (simp add: update_E_def attempt_def E_interior_def driven3_sel py_slice_tail py_slice_front
        py_slice_interior np_binop_same_length slice_assign_def slice_bound_def)
  have p4: "update_left ?s3 = (None, ?s3)"
    by (simp add: update_left_def attempt_def driven3_sel py_set_def py_index_def)
  have p5: "update_right ?s3 = (None, ?s3)"
    by (simp add: update_right_def attempt_def driven3_sel py_set_def py_index_def)
  have p6: "inject_E ?src ?s3 = (None, ?s6)"
    using g(2) by (simp add: inject_E_def attempt_def grid_index_def py_get_def py_set_def py_index_def
        py_truediv_def driven3_sel source_E_def pulse_def)
  have p7: "record_probes ?s6 = (None, ?s7)"
    by (simp add: record_probes_def add_data_def srcs py_get_def py_set_def py_index_def)
  have p8: "advance_time ?s7 = (None, ?s7\<lparr>current_time := Some (1 / c)\<rparr>)"
    using g(2) by (simp add: advance_time_def attempt_def py_truediv_def driven3_sel)
  have l2: "for_each inject_H (sources driven3) driven3 = (None, ?s2)"
    by (simp add: srcs p2)
  have l6: "for_each inject_E (sources ?s3) ?s3 = (None, ?s6)"
    using p6 by (simp add: srcs)
  have "iteration driven3 = (None, ?s7\<lparr>current_time := Some (1 / c)\<rparr>)"
    unfolding iteration_def
    apply (rule seq_then [where u = driven3], rule p1)
    apply (rule seq_then [where u = ?s2], rule l2)
    apply (rule seq_then [where u = ?s3], rule p3)
    apply (rule seq_then [where u = ?s3], rule p4)
    apply (rule seq_then [where u = ?s3], rule p5)
    apply (rule seq_then [where u = ?s6], rule l6)
    apply (rule seq_then [where u = ?s7], rule p7)
    apply (rule p8)
    done
  with g show ?thesis
    by (simp add: next_iteration_def int_floordiv_def driven3_sel)
qed

section \<open>The ground state\<close>





















section \<open>The shapes are an invariant\<close>

text \<open>
  Every engine that the constructor returns has the shapes; the registration
  of layers, sources and probes, the start of a run and every step keep them.
\<close>

lemma init_well_shaped:
  assumes "init a d td sc = Inr s"
  shows "well_shaped s \<and> 0 < dx s \<and> 0 < dt s \<and> 1 \<le> time_counts s \<and>
         length (borders s) = 2 * length (layers s)"
proof -
  from assms have ok: "0 < d" "d \<le> a" "0 < sc" "0 < td" "d * sc / c \<le> td" and s: "s = fresh a d td sc"
    by (simp_all add: init_after_validation validate_init_data_eq split: if_splits)
  from ok have n: "1 \<le> \<lfloor>a / d\<rfloor>" by (simp add: floor_ge_one)
  from ok c_pos have dt: "0 < d * sc / c" by simp
  with ok have tc: "1 \<le> \<lfloor>td / (d * sc / c)\<rfloor>" by (intro floor_ge_one)
  from n have "nat (\<lfloor>a / d\<rfloor> - 1) = nat \<lfloor>a / d\<rfloor> - 1" by simp
  with n dt tc ok show ?thesis
    unfolding s by (simp add: fresh_def well_shaped_def shaped_like_def)
qed

lemma length_slice_assign:
  assumes "slice_assign lo hi ys xs = Inr zs"
  shows "length zs = length xs"
proof -
  define a where "a = slice_bound (length xs) lo"
  define m where "m = slice_bound (length xs) hi - a"
  have "a \<le> length xs" "a + m \<le> length xs"
    using slice_bound_le [of "length xs" lo] slice_bound_le [of "length xs" hi]
    by (simp_all add: a_def m_def)
  moreover from assms have "zs = take a xs @ ys @ drop (a + m) xs \<and> length ys = m
      \<or> zs = take a xs @ replicate m (hd ys) @ drop (a + m) xs"
    by (auto simp add: slice_assign_def Let_def a_def m_def split: if_splits)
  ultimately show ?thesis by auto
qed

lemma length_np_binop_same:
  assumes "np_binop f xs ys = Inr zs" and "length xs = length ys"
  shows "length zs = length xs"
  using assms by (auto simp add: np_binop_def)

text \<open>The registration of layers, sources and probes keeps the shapes.\<close>

lemma well_shaped_add_layer: "well_shaped s \<Longrightarrow> well_shaped (snd (add_layer l s))"
  by (simp add: add_layer_def seq_def append_layer_def overlay_def attempt_def returning_def
      layer_range_def py_truediv_def well_shaped_def)

lemma well_shaped_delete_layer:
  assumes "well_shaped s"
  shows "well_shaped (snd (delete_layer nm s))"
proof -
  let ?W = "well_shaped"
  have r: "preserves ?W (reset_range l)" for l
    unfolding reset_range_def
    by (rule preserves_attempt)
       (auto simp add: well_shaped_def layer_range_def py_truediv_def split: if_splits)
  have b: "preserves ?W (pop_border i)" for i
    unfolding pop_border_def
    by (rule preserves_attempt) (auto simp add: well_shaped_def ebind_def split: sum.splits)
  have p: "preserves ?W (pop_layer i)" for i
    unfolding pop_layer_def
    by (rule preserves_attempt) (auto simp add: well_shaped_def ebind_def split: sum.splits)
  have all: "preserves ?W (seq (reset_range l) (seq (pop_border (2 * i + 1)) (seq (pop_border (2 * i)) (pop_layer i))))"
    for l i
    by (intro preserves_seq r b p)
  show ?thesis
  proof (cases "find_layer nm 0 (layers s)")
    case None
    with assms show ?thesis by (simp add: delete_layer_def)
  next
    case (Some il)
    obtain i l where il: "il = (i, l)" by (cases il)
    obtain r' s' where e: "seq (reset_range l) (seq (pop_border (2 * i + 1)) (seq (pop_border (2 * i)) (pop_layer i))) s = (r', s')"
      by (cases "seq (reset_range l) (seq (pop_border (2 * i + 1)) (seq (pop_border (2 * i)) (pop_layer i))) s")
    with all assms have "?W s'" by (rule preservesD)
    with Some il e show ?thesis by (cases r') (simp_all add: delete_layer_def)
  qed
qed

lemma well_shaped_add_source: "well_shaped s \<Longrightarrow> well_shaped (snd (add_source src s))"
  by (auto simp add: add_source_def attempt_def returning_def well_shaped_def ebind_def
      split: sum.splits)

lemma well_shaped_append_probe: "preserves well_shaped (append_probe x)"
  unfolding append_probe_def
  by (rule preserves_attempt) (auto simp add: well_shaped_def ebind_def split: sum.splits)

lemma well_shaped_append_probe_of: "preserves well_shaped (append_probe_of v)"
  by (cases v) (simp_all add: well_shaped_append_probe, simp_all add: preserves_def)

lemma well_shaped_add_probes:
  assumes "well_shaped s"
  shows "well_shaped (snd (add_probes v s))"
proof -
  have 1: "well_shaped (snd (returning True (f s)))" if "preserves well_shaped f" for f
  proof -
    obtain r s' where e: "f s = (r, s')" by (cases "f s")
    with that assms have "well_shaped s'" by (rule preservesD)
    with e show ?thesis by (cases r) simp_all
  qed
  show ?thesis
  proof (cases v)
    case (Num n)
    with assms 1 [OF well_shaped_append_probe] show ?thesis by (cases n) simp_all
  next
    case (Seq args)
    with 1 [OF preserves_for_each [of args well_shaped append_probe_of]] show ?thesis
      by (simp add: well_shaped_append_probe_of)
  qed (simp_all add: assms)
qed

lemma well_shaped_lengths:
  assumes "well_shaped s"
  shows "length (H s) = length (E s) - 1" "length (mu s) = length (E s) - 1"
  using assms by (simp_all add: well_shaped_def)

lemma well_shaped_update_H: "preserves well_shaped update_H"
  unfolding update_H_def
proof (rule preserves_attempt)
  fix s s' assume w: "well_shaped s" and e: "ebind (H_next s) (\<lambda>h. Inr (s\<lparr>H := h\<rparr>)) = Inr s'"
  from w have "H_next s = Inr (H (spec_update_H s))"
    by (intro H_next_pointwise well_shaped_lengths)
  with e have "s' = spec_update_H s" by (simp add: spec_update_H_def)
  with w show "well_shaped s'" by (simp add: well_shaped_def spec_update_H_def)
qed

lemma well_shaped_inject_H: "preserves well_shaped (inject_H src)"
  unfolding inject_H_def
  by (rule preserves_attempt)
     (auto simp add: well_shaped_def ebind_def split: sum.splits dest: py_set_length)

lemma well_shaped_inject_E: "preserves well_shaped (inject_E src)"
  unfolding inject_E_def
  by (rule preserves_attempt)
     (auto simp add: well_shaped_def ebind_def split: sum.splits dest: py_set_length)

lemma well_shaped_update_E: "preserves well_shaped update_E"
  unfolding update_E_def
  by (rule preserves_attempt)
     (auto simp add: well_shaped_def ebind_def split: sum.splits dest: length_slice_assign)

lemma well_shaped_update_left: "preserves well_shaped update_left"
  unfolding update_left_def
  by (rule preserves_attempt)
     (auto simp add: well_shaped_def ebind_def split: sum.splits dest: update_field_length)

lemma well_shaped_update_right: "preserves well_shaped update_right"
  unfolding update_right_def
  by (rule preserves_attempt)
     (auto simp add: well_shaped_def ebind_def split: sum.splits dest: update_field_length)

lemma well_shaped_record_probes: "preserves well_shaped record_probes"
  by (rule preservesI) (auto simp add: record_probes_def well_shaped_def split: prod.splits)

lemma well_shaped_advance_time: "preserves well_shaped advance_time"
  unfolding advance_time_def
  by (rule preserves_attempt) (auto simp add: well_shaped_def ebind_def split: sum.splits)

lemma well_shaped_stop_timer: "preserves well_shaped stop_timer"
  unfolding stop_timer_def
  by (rule preserves_attempt) (auto simp add: well_shaped_def ebind_def split: sum.splits)

lemma well_shaped_iteration: "preserves well_shaped iteration"
  unfolding iteration_def
  by (intro preserves_seq preserves_loop well_shaped_update_H well_shaped_inject_H
      well_shaped_update_E well_shaped_update_left well_shaped_update_right well_shaped_inject_E
      well_shaped_record_probes well_shaped_advance_time)

text \<open>A step keeps the shapes, whether it raises or not.\<close>

lemma well_shaped_next_iteration:
  assumes "well_shaped s"
  shows "well_shaped (snd (next_iteration s))"
proof (cases "ebind (attribute (current_time s)) (\<lambda>t. int_floordiv t (dt s))")
  case (Inl e)
  with assms show ?thesis by (simp add: next_iteration_def)
next
  case (Inr k)
  let ?f = "if k < time_counts s then iteration else stop_timer"
  have p: "preserves well_shaped ?f"
    by (simp add: well_shaped_iteration well_shaped_stop_timer)
  obtain r s' where e: "?f s = (r, s')" by (cases "?f s")
  with p assms have "well_shaped s'" by (rule preservesD)
  moreover from Inr e have "snd (next_iteration s) = s'"
    by (cases r) (auto simp add: next_iteration_def split: if_splits)
  ultimately show ?thesis by simp
qed

lemma well_shaped_analyze:
  assumes "well_shaped s"
  shows "well_shaped (snd (analyze s))"
proof -
  have l: "preserves well_shaped refresh_left"
    by (rule preservesI) (auto simp add: refresh_left_def well_shaped_def split: prod.splits)
  have r: "preserves well_shaped refresh_right"
    by (rule preservesI) (auto simp add: refresh_right_def well_shaped_def split: prod.splits)
  have c: "preserves well_shaped check_boundary_types"
    by (rule preservesI) (auto simp add: check_boundary_types_def split: if_splits)
  have z: "preserves well_shaped set_ceze"
    unfolding set_ceze_def
    by (rule preserves_attempt)
       (auto simp add: well_shaped_def shaped_like_def ebind_def np_binop_same_length
          split: sum.splits option.splits)
  have h: "preserves well_shaped set_cezh"
    unfolding set_cezh_def
    by (rule preserves_attempt)
       (auto simp add: well_shaped_def shaped_like_def ebind_def np_binop_same_length
          split: sum.splits option.splits)
  have t: "preserves well_shaped start_timer"
    by (rule preservesI) (auto simp add: start_timer_def well_shaped_def)
  have b: "preserves well_shaped (seq refresh_left (seq refresh_right check_boundary_types))"
    by (intro preserves_seq l r c)
  have a: "preserves well_shaped (seq set_ceze (seq set_cezh start_timer))"
    by (intro preserves_seq z h t)
  obtain r1 s1 where e1: "seq refresh_left (seq refresh_right check_boundary_types) s = (r1, s1)"
    by (cases "seq refresh_left (seq refresh_right check_boundary_types) s")
  with b assms have w1: "well_shaped s1" by (rule preservesD)
  obtain r2 s2 where e2: "seq set_ceze (seq set_cezh start_timer) s1 = (r2, s2)"
    by (cases "seq set_ceze (seq set_cezh start_timer) s1")
  with a w1 have w2: "well_shaped s2" by (rule preservesD)
  from e1 e2 w1 w2 show ?thesis
    by (cases r1; cases r2) (simp_all add: analyze_def update_boundary_def)
qed

text \<open>Two borders for every layer: the registration of layers keeps the pairing.\<close>

lemma paired_add_layer: "paired s \<Longrightarrow> paired (snd (add_layer l s))"
  by (simp add: paired_def add_layer_eq)

lemma find_layer_bound: "find_layer nm i ls = Some (j, l) \<Longrightarrow> i \<le> j \<and> j < i + length ls"
proof (induction ls arbitrary: i)
  case Nil
  then show ?case by simp
next
  case (Cons a ls)
  show ?case
  proof (cases "layer_name a = nm")
    case True
    with Cons.prems show ?thesis by simp
  next
    case False
    with Cons.prems have "find_layer nm (Suc i) ls = Some (j, l)" by simp
    from Cons.IH [OF this] show ?thesis by simp
  qed
qed

lemma paired_delete_layer:
  assumes "paired s"
  shows "paired (snd (delete_layer nm s))"
proof (cases "find_layer nm 0 (layers s)")
  case None
  with assms show ?thesis by (simp add: delete_layer_def)
next
  case (Some il)
  obtain i l where il: "il = (i, l)" by (cases il)
  with Some have i: "i < length (layers s)" using find_layer_bound [of nm 0 "layers s" i l] by simp
  with assms have b: "Suc (2 * i) < length (borders s)" by (simp add: paired_def)
  from assms have d: "dx s \<noteq> 0" by (simp add: paired_def)
  from i have "2 * length (layers s) - 2 = 2 * (length (layers s) - Suc 0)" by arith
  with assms i b d Some il show ?thesis
    by (simp add: delete_layer_def seq_def reset_range_def pop_border_def pop_layer_def attempt_def
        layer_range_def py_truediv_def py_pop_def paired_def)
qed

end
